theory Spec2Isabelle
  imports Complex_Main "HOL-Library.Word"
begin

section \<open>Python values shared by both programs\<close>

text \<open>Every exception the two scripts can raise is a value; a function that can raise
  returns \<open>py_error + 'a\<close> with \<open>Inl\<close> for the exception.\<close>

datatype py_error =
    AssertionError | ValueError | UnboundLocalError | AttributeError
  | RuntimeError | KeyError | IndexError | ZeroDivisionError | FileNotFoundError

text \<open>A \<^verbatim>\<open>for\<close> loop whose body can raise: the first exception ends it.\<close>

fun for_each :: "('x \<Rightarrow> 's \<Rightarrow> py_error + 's) \<Rightarrow> 'x list \<Rightarrow> 's \<Rightarrow> py_error + 's" where
  "for_each body [] s = Inr s"
| "for_each body (x # xs) s =
     (case body x s of Inl e \<Rightarrow> Inl e | Inr s' \<Rightarrow> for_each body xs s')"

subsection \<open>String operations used on parameter names and paths\<close>

text \<open>\<^verbatim>\<open>s.startswith(p)\<close>\<close>

fun startswith :: "string \<Rightarrow> string \<Rightarrow> bool" where
  "startswith s [] = True"
| "startswith [] (p # ps) = False"
| "startswith (c # cs) (p # ps) = (c = p \<and> startswith cs ps)"

text \<open>\<^verbatim>\<open>sub in s\<close>\<close>

fun contains :: "string \<Rightarrow> string \<Rightarrow> bool" where
  "contains [] sub = (sub = [])"
| "contains (c # cs) sub = (startswith (c # cs) sub \<or> contains cs sub)"

text \<open>\<^verbatim>\<open>s.replace(old, new)\<close> for a non-empty \<open>old\<close>: occurrences are found left to
  right and do not overlap. The first argument counts the characters of a matched occurrence
  that are still to be skipped.\<close>

fun replace_from :: "nat \<Rightarrow> string \<Rightarrow> string \<Rightarrow> string \<Rightarrow> string" where
  "replace_from k old new [] = []"
| "replace_from (Suc k) old new (c # cs) = replace_from k old new cs"
| "replace_from 0 old new (c # cs) =
     (if startswith (c # cs) old then new @ replace_from (length old - 1) old new cs
      else c # replace_from 0 old new cs)"

definition py_replace :: "string \<Rightarrow> string \<Rightarrow> string \<Rightarrow> string" where
  "py_replace s old new = replace_from 0 old new s"

text \<open>\<^verbatim>\<open>s.split(sep)[-1]\<close> for a non-empty \<open>sep\<close>: what follows the last occurrence of
  the separator, the whole string when there is none. \<open>acc\<close> is the segment read so far.\<close>

fun last_segment_from :: "nat \<Rightarrow> string \<Rightarrow> string \<Rightarrow> string \<Rightarrow> string" where
  "last_segment_from k sep acc [] = acc"
| "last_segment_from (Suc k) sep acc (c # cs) = last_segment_from k sep acc cs"
| "last_segment_from 0 sep acc (c # cs) =
     (if startswith (c # cs) sep then last_segment_from (length sep - 1) sep [] cs
      else last_segment_from 0 sep (acc @ [c]) cs)"

definition split_last :: "string \<Rightarrow> string \<Rightarrow> string" where
  "split_last s sep = last_segment_from 0 sep [] s"

text \<open>The format \<^verbatim>\<open>{epoch:03}\<close>: decimal digits, padded with zeros to width 3.\<close>

definition digit_char :: "nat \<Rightarrow> char" where
  "digit_char d = char_of (48 + d)"

fun decimal :: "nat \<Rightarrow> string" where
  "decimal n = (if n < 10 then [digit_char n] else decimal (n div 10) @ [digit_char (n mod 10)])"

declare decimal.simps [simp del]

definition fmt03 :: "nat \<Rightarrow> string" where
  "fmt03 n = replicate (3 - length (decimal n)) (CHR ''0'') @ decimal n"

subsection \<open>Tensors and state dictionaries\<close>

text \<open>A tensor is its shape and its elements in row-major order. A state dictionary is an
  ordered dictionary from parameter names to tensors.\<close>

record tensor =
  shape :: "nat list"
  elems :: "real list"

type_synonym state_dict = "(string \<times> tensor) list"

definition numel :: "nat list \<Rightarrow> nat" where
  "numel sh = prod_list sh"

definition zeros_like :: "tensor \<Rightarrow> tensor" where
  "zeros_like t = \<lparr>shape = shape t, elems = replicate (numel (shape t)) 0\<rparr>"

text \<open>\<^verbatim>\<open>d[k] = v\<close> on an ordered dictionary: an existing key keeps its position.\<close>

fun dict_set :: "string \<Rightarrow> 'v \<Rightarrow> (string \<times> 'v) list \<Rightarrow> (string \<times> 'v) list" where
  "dict_set k v [] = [(k, v)]"
| "dict_set k v ((k', v') # kvs) =
     (if k' = k then (k, v) # kvs else (k', v') # dict_set k v kvs)"

section \<open>The training script \<^verbatim>\<open>train/main.py\<close>\<close>

subsection \<open>\<^verbatim>\<open>calculate_class_weights\<close> (lines 47-84)\<close>

text \<open>A float of the result array: dividing by zero and the logarithm of a number that is not
  positive give no exception but an infinity or a NaN.\<close>

datatype npfloat = Finite real | PosInf | NegInf | NaN










subsection \<open>Command line, model object, files\<close>

datatype arch_name = Erfnet | ErfnetIsomaxplus | Bisenet | Enet

record args =
  cuda :: bool
  model_name :: arch_name
  num_epochs :: nat
  epochs_save :: int
  savedir :: string
  loss :: string
  iouTrain :: bool
  iouVal :: bool
  resume :: bool
  FineTune :: bool

text \<open>The model object: \<^verbatim>\<open>str(model)\<close>, \<^verbatim>\<open>model.state_dict()\<close>, whether it is wrapped in
  \<^verbatim>\<open>DataParallel\<close> (only then \<^verbatim>\<open>model.module\<close> exists) and whether its decoder has the
  attribute \<^verbatim>\<open>loss_first_part\<close>.\<close>

record model =
  arch :: string
  state :: state_dict
  data_parallel :: bool
  has_loss_first_part :: bool

record 'o checkpoint =
  ck_epoch :: nat
  ck_arch :: string
  ck_state_dict :: state_dict
  ck_loss_first_part :: "state_dict option"
  ck_best_acc :: real
  ck_optimizer :: 'o

record epoch_record =
  er_epoch :: nat
  er_train_loss :: real
  er_val_loss :: real
  er_train_iou :: real
  er_val_iou :: real
  er_lr :: real

datatype log_line = Header | Row epoch_record

datatype 'o stored_file =
    CheckpointFile "'o checkpoint"
  | ModelFile state_dict "state_dict option"
  | BestTxt nat real
  | LogFile "log_line list"
  | TextFile string

type_synonym 'o filesystem = "string \<rightharpoonup> 'o stored_file"

text \<open>What the loaders, the network, the criterion, the optimizer and the IoU evaluator
  produce in one epoch, given the epoch number, the weights and the optimizer state: they are
  outside this repository's two files.\<close>

record 'o pass_result =
  new_state :: state_dict
  new_optimizer :: 'o
  train_losses :: "real list"
  val_losses :: "real list"
  iou_train_value :: real
  iou_val_value :: real
  used_lr :: real

record 'o environment =
  datadir_exists :: bool
  init_optimizer :: 'o
  run_passes :: "nat \<Rightarrow> state_dict \<Rightarrow> 'o \<Rightarrow> 'o pass_result"

record 'o train_state =
  ts_model :: model
  ts_optimizer :: 'o
  ts_best_acc :: real
  ts_files :: "'o filesystem"

subsection \<open>\<^verbatim>\<open>save_checkpoint\<close> and \<^verbatim>\<open>save_model\<close>\<close>

definition save_checkpoint ::
  "'o checkpoint \<Rightarrow> bool \<Rightarrow> string \<Rightarrow> string \<Rightarrow> 'o filesystem \<Rightarrow> 'o filesystem" where
  "save_checkpoint st is_best filenameCheckpoint filenameBest fs =
     (let fs1 = fs(filenameCheckpoint \<mapsto> CheckpointFile st)
      in if is_best then fs1(filenameBest \<mapsto> CheckpointFile st) else fs1)"

text \<open>The state dictionary of a sub-module: the entries below its prefix, the prefix
  removed.\<close>

definition sub_state_dict :: "string \<Rightarrow> state_dict \<Rightarrow> state_dict" where
  "sub_state_dict pre sd =
     map (\<lambda>(k, v). (drop (length pre) k, v)) (filter (\<lambda>(k, v). startswith k pre) sd)"

definition save_model ::
  "model \<Rightarrow> string \<Rightarrow> bool \<Rightarrow> 'o filesystem \<Rightarrow> py_error + 'o filesystem" where
  "save_model m filename save_isomax fs =
     (if save_isomax then
        (if \<not> data_parallel m then Inl AttributeError
         else if has_loss_first_part m then
           Inr (fs(filename \<mapsto> ModelFile (state m)
                  (Some (sub_state_dict ''module.decoder.loss_first_part.'' (state m)))))
         else Inr (fs(filename \<mapsto> ModelFile (state m) None)))
      else Inr (fs(filename \<mapsto> ModelFile (state m) None)))"

subsection \<open>The end of an epoch\<close>

text \<open>Lines 372-385: the metric of the epoch and the comparison with the stored best.\<close>

definition epoch_iouVal :: "bool \<Rightarrow> real \<Rightarrow> real" where
  "epoch_iouVal doIouVal iou = (if doIouVal then iou else 0)"

definition current_acc :: "real \<Rightarrow> real \<Rightarrow> real" where
  "current_acc iouVal_e average_epoch_loss_val =
     (if iouVal_e = 0 then - average_epoch_loss_val else iouVal_e)"

definition filenameCheckpoint :: "string \<Rightarrow> bool \<Rightarrow> string" where
  "filenameCheckpoint sdir enc =
     (if enc then sdir @ ''/checkpoint_enc.pth.tar'' else sdir @ ''/checkpoint.pth.tar'')"

definition filenameBest :: "string \<Rightarrow> bool \<Rightarrow> string" where
  "filenameBest sdir enc =
     (if enc then sdir @ ''/model_best_enc.pth.tar'' else sdir @ ''/model_best.pth.tar'')"

definition snapshot_filename :: "string \<Rightarrow> bool \<Rightarrow> nat \<Rightarrow> string" where
  "snapshot_filename sdir enc epoch =
     (if enc then sdir @ ''/model_encoder-'' @ fmt03 epoch @ ''.pth''
      else sdir @ ''/model-'' @ fmt03 epoch @ ''.pth'')"

definition filenamebest :: "string \<Rightarrow> bool \<Rightarrow> string" where
  "filenamebest sdir enc =
     (if enc then sdir @ ''/model_encoder_best.pth'' else sdir @ ''/model_best.pth'')"

definition best_txt :: "string \<Rightarrow> bool \<Rightarrow> string" where
  "best_txt sdir enc = (if enc then sdir @ ''/best_encoder.txt'' else sdir @ ''/best.txt'')"

definition automated_log_path :: "string \<Rightarrow> bool \<Rightarrow> string" where
  "automated_log_path sdir enc =
     (if enc then sdir @ ''/automated_log_encoder.txt'' else sdir @ ''/automated_log.txt'')"

definition modeltxtpath :: "string \<Rightarrow> bool \<Rightarrow> string" where
  "modeltxtpath sdir enc =
     (if enc then sdir @ ''/model_encoder.txt'' else sdir @ ''/model.txt'')"

text \<open>Opening the log in append mode and writing one line.\<close>

definition append_log :: "string \<Rightarrow> log_line \<Rightarrow> 'o filesystem \<Rightarrow> 'o filesystem" where
  "append_log path line fs =
     fs(path \<mapsto> LogFile ((case fs path of Some (LogFile ls) \<Rightarrow> ls | _ \<Rightarrow> []) @ [line]))"

text \<open>The periodic snapshot test of line 428. \<open>step\<close> is the loop variable left by the
  validation loop, the index of its last batch.\<close>

definition snapshot_due :: "int \<Rightarrow> int \<Rightarrow> bool" where
  "snapshot_due epochs_save_v step = (epochs_save_v > 0 \<and> step > 0 \<and> step mod epochs_save_v = 0)"

definition average :: "real list \<Rightarrow> py_error + real" where
  "average xs = (if xs = [] then Inl ZeroDivisionError else Inr (sum_list xs / real (length xs)))"

text \<open>Lines 223-453, the body of the epoch loop.\<close>

definition epoch_body ::
  "args \<Rightarrow> 'o environment \<Rightarrow> bool \<Rightarrow> string \<Rightarrow> nat \<Rightarrow> 'o train_state \<Rightarrow> py_error + 'o train_state" where
  "epoch_body a env enc sdir epoch s =
     (let r = run_passes env epoch (state (ts_model s)) (ts_optimizer s);
          m = (ts_model s)\<lparr>state := new_state r\<rparr>
      in case average (train_losses r) of Inl e \<Rightarrow> Inl e
      | Inr average_epoch_loss_train \<Rightarrow>
      (let iouTrain_e = (if iouTrain a then iou_train_value r else 0)
       in case average (val_losses r) of Inl e \<Rightarrow> Inl e
       | Inr average_epoch_loss_val \<Rightarrow>
       (let iouVal_e = epoch_iouVal (iouVal a) (iou_val_value r);
            cur = current_acc iouVal_e average_epoch_loss_val;
            is_best = (cur > ts_best_acc s);
            best_acc = max cur (ts_best_acc s);
            step = int (length (val_losses r)) - 1
        in if model_name a = ErfnetIsomaxplus \<and> \<not> data_parallel m then Inl AttributeError
        else
        (let ck = \<lparr>ck_epoch = epoch + 1, ck_arch = arch m, ck_state_dict = state m,
                   ck_loss_first_part =
                     (if model_name a = ErfnetIsomaxplus
                      then Some (sub_state_dict ''module.decoder.'' (state m)) else None),
                   ck_best_acc = best_acc, ck_optimizer = new_optimizer r\<rparr>;
             fs1 = save_checkpoint ck is_best (filenameCheckpoint sdir enc)
                     (filenameBest sdir enc) (ts_files s)
         in case (if snapshot_due (epochs_save a) step
                  then save_model m (snapshot_filename sdir enc epoch)
                         (model_name a = ErfnetIsomaxplus) fs1
                  else Inr fs1) of Inl e \<Rightarrow> Inl e
         | Inr fs2 \<Rightarrow>
         (case (if is_best
                then (case save_model m (filenamebest sdir enc)
                             (model_name a = ErfnetIsomaxplus) fs2 of Inl e \<Rightarrow> Inl e
                      | Inr fs' \<Rightarrow> Inr (fs'(best_txt sdir enc \<mapsto> BestTxt epoch iouVal_e)))
                else Inr fs2) of Inl e \<Rightarrow> Inl e
          | Inr fs3 \<Rightarrow>
            Inr \<lparr>ts_model = m, ts_optimizer = new_optimizer r, ts_best_acc = best_acc,
                 ts_files = append_log (automated_log_path sdir enc)
                   (Row \<lparr>er_epoch = epoch, er_train_loss = average_epoch_loss_train,
                         er_val_loss = average_epoch_loss_val, er_train_iou = iouTrain_e,
                         er_val_iou = iouVal_e, er_lr = used_lr r\<rparr>) fs3\<rparr>)))))"

text \<open>\<^verbatim>\<open>for epoch in range(start_epoch, args.num_epochs+1)\<close>: an exception ends the
  loop.\<close>

fun epoch_loop ::
  "args \<Rightarrow> 'o environment \<Rightarrow> bool \<Rightarrow> string \<Rightarrow> nat list \<Rightarrow> 'o train_state \<Rightarrow> py_error + 'o train_state" where
  "epoch_loop a env enc sdir [] s = Inr s"
| "epoch_loop a env enc sdir (epoch # epochs) s =
     (case epoch_body a env enc sdir epoch s of Inl e \<Rightarrow> Inl e
      | Inr s' \<Rightarrow> epoch_loop a env enc sdir epochs s')"

subsection \<open>Resuming and the function \<^verbatim>\<open>train\<close>\<close>

text \<open>\<^verbatim>\<open>{key.replace("module.", ""): value for key, value in ....items()}\<close>\<close>

definition strip_module_keys :: "state_dict \<Rightarrow> state_dict" where
  "strip_module_keys sd = fold (\<lambda>(k, v) d. dict_set (py_replace k ''module.'' []) v d) sd []"

text \<open>\<^verbatim>\<open>model.load_state_dict(state_dict)\<close> of the library, in its default strict mode: the
  names must be the model's own and every shape must agree.\<close>

definition torch_load_state_dict :: "state_dict \<Rightarrow> state_dict \<Rightarrow> py_error + state_dict" where
  "torch_load_state_dict own sd =
     (if set (map fst sd) = set (map fst own)
         \<and> list_all (\<lambda>(k, v). map_option shape (map_of sd k) = Some (shape v)) own
      then Inr (map (\<lambda>(k, v). (k, case map_of sd k of Some t \<Rightarrow> v\<lparr>elems := elems t\<rparr> | None \<Rightarrow> v)) own)
      else Inl RuntimeError)"

text \<open>Lines 172-187. The argument \<open>optimizer\<close> is the local variable of that name as the
  block finds it: \<open>None\<close> while nothing has been assigned to it.\<close>

definition resume_checkpoint ::
  "'o option \<Rightarrow> model \<Rightarrow> 'o filesystem \<Rightarrow> string \<Rightarrow> py_error + (nat \<times> model \<times> 'o \<times> real)" where
  "resume_checkpoint optimizer m fs fname =
     (case fs fname of
        None \<Rightarrow> Inl AssertionError
      | Some (CheckpointFile ck) \<Rightarrow>
          (case torch_load_state_dict (state m) (strip_module_keys (ck_state_dict ck)) of
             Inl e \<Rightarrow> Inl e
           | Inr sd \<Rightarrow>
               (case optimizer of
                  None \<Rightarrow> Inl UnboundLocalError
                | Some opt \<Rightarrow> Inr (ck_epoch ck, m\<lparr>state := sd\<rparr>, ck_optimizer ck, ck_best_acc ck)))
      | Some _ \<Rightarrow> Inl RuntimeError)"

text \<open>The function \<^verbatim>\<open>train\<close>. The class weights and the choice of criterion only
  configure the loss, which the environment computes; of that part the model keeps the
  \<^verbatim>\<open>raise ValueError\<close> of line 139. The resume block runs at line 172, the first
  assignment to \<^verbatim>\<open>optimizer\<close> is at line 206: the block is given \<open>None\<close>.\<close>

definition train ::
  "args \<Rightarrow> 'o environment \<Rightarrow> model \<Rightarrow> bool \<Rightarrow> 'o filesystem \<Rightarrow> py_error + 'o train_state" where
  "train a env m enc fs =
     (if \<not> datadir_exists env then Inl AssertionError
      else if model_name a = Erfnet \<and> loss a = ''IsoMaxPlus'' then Inl ValueError
      else
      (let sdir = ''../save/'' @ savedir a;
           fs1 = (if fs (automated_log_path sdir enc) = None
                  then append_log (automated_log_path sdir enc) Header fs else fs);
           fs2 = fs1(modeltxtpath sdir enc \<mapsto> TextFile (arch m))
       in case (if resume a
                then (case resume_checkpoint None m fs2 (filenameCheckpoint sdir enc) of
                        Inl e \<Rightarrow> Inl e
                      | Inr (start_epoch, m', opt, best_acc) \<Rightarrow> Inr (start_epoch, m', best_acc))
                else Inr (1, m, 0)) of
            Inl e \<Rightarrow> Inl e
          | Inr (start_epoch, m', best_acc) \<Rightarrow>
              (if FineTune a \<and> \<not> data_parallel m' then Inl AttributeError
               else epoch_loop a env enc sdir [start_epoch ..< num_epochs a + 1]
                      \<lparr>ts_model = m', ts_optimizer = init_optimizer env,
                       ts_best_acc = best_acc, ts_files = fs2\<rparr>)))"

section \<open>Weight reconciliation\<close>

subsection \<open>Copying between tensors\<close>

text \<open>Broadcasting a source of shape \<open>ss\<close> (already padded with leading 1s) to the shape
  \<open>ts\<close>: a dimension of size 1 is repeated, an equal dimension is expanded slice by slice.\<close>

fun expand_elems :: "nat list \<Rightarrow> nat list \<Rightarrow> real list \<Rightarrow> real list" where
  "expand_elems (s # ss) (t # ts) xs =
     (if s = t
      then concat (map (\<lambda>i. expand_elems ss ts (take (numel ss) (drop (i * numel ss) xs))) [0..<s])
      else concat (replicate t (expand_elems ss ts xs)))"
| "expand_elems ss ts xs = xs"

text \<open>\<^verbatim>\<open>self.copy_(src)\<close>: the source must broadcast to the shape of \<open>self\<close>, which
  itself is never resized.\<close>

definition tensor_copy :: "tensor \<Rightarrow> tensor \<Rightarrow> py_error + tensor" where
  "tensor_copy self src =
     (if shape src = shape self then Inr (self\<lparr>elems := elems src\<rparr>)
      else
      (let padded = replicate (length (shape self) - length (shape src)) 1 @ shape src
       in if length (shape src) \<le> length (shape self)
             \<and> list_all2 (\<lambda>s t. s = t \<or> s = 1) padded (shape self)
          then Inr (self\<lparr>elems := expand_elems padded (shape self) (elems src)\<rparr>)
          else Inl RuntimeError))"

text \<open>\<^verbatim>\<open>new_param[:param.size(0)] = param\<close>: \<^verbatim>\<open>size(0)\<close> and the slice need a
  dimension; the slice is a view of the first \<open>min n m\<close> rows, and the assignment copies
  into that view.\<close>

definition assign_leading :: "tensor \<Rightarrow> tensor \<Rightarrow> py_error + tensor" where
  "assign_leading new_param param =
     (case shape param of
        [] \<Rightarrow> Inl IndexError
      | n # _ \<Rightarrow>
          (case shape new_param of
             [] \<Rightarrow> Inl IndexError
           | m # rest \<Rightarrow>
               (let k = min n m;
                    view = \<lparr>shape = k # rest, elems = take (k * numel rest) (elems new_param)\<rparr>
                in case tensor_copy view param of
                     Inl e \<Rightarrow> Inl e
                   | Inr v \<Rightarrow>
                       Inr (new_param\<lparr>elems := elems v @ drop (k * numel rest) (elems new_param)\<rparr>))))"

subsection \<open>\<^verbatim>\<open>load_my_state_dict\<close> of the fine-tuning path (train/main.py, lines 492-519)\<close>

text \<open>What the function prints, in order.\<close>

datatype message =
    PrintKeys "string list"
  | SkippingStripped string string
  | SizeMismatchStripped string "nat list" "nat list"
  | SkippingAbsent string
  | SizeMismatchExact string "nat list" "nat list"
  | NotLoaded string

definition is_output_layer_name :: "string \<Rightarrow> bool" where
  "is_output_layer_name name =
     (contains name ''conv_out.conv_out'' \<or> contains name ''conv_out16.conv_out''
      \<or> contains name ''conv_out32.conv_out'')"

text \<open>The body of \<^verbatim>\<open>for name, param in state_dict.items()\<close>. The tensors of
  \<^verbatim>\<open>own_state\<close> are the model's own: \<^verbatim>\<open>copy_\<close> changes the model.\<close>

definition load_entry ::
  "string \<times> tensor \<Rightarrow> state_dict \<times> message list \<Rightarrow> py_error + (state_dict \<times> message list)" where
  "load_entry item acc =
     (case item of (name, param) \<Rightarrow> case acc of (own_state, out) \<Rightarrow>
      (case map_of own_state name of
         None \<Rightarrow>
           (if startswith name ''module.'' then
              (let stripped_name = split_last name ''module.''
               in case map_of own_state stripped_name of
                    None \<Rightarrow> Inr (own_state, out @ [SkippingStripped name stripped_name])
                  | Some t \<Rightarrow>
                      (if shape t \<noteq> shape param
                       then Inr (own_state,
                              out @ [SizeMismatchStripped stripped_name (shape t) (shape param)])
                       else (case tensor_copy t param of
                               Inl e \<Rightarrow> Inl e
                             | Inr t' \<Rightarrow> Inr (dict_set stripped_name t' own_state, out))))
            else Inr (own_state, out @ [SkippingAbsent name]))
       | Some t \<Rightarrow>
           (let out1 = (if shape t \<noteq> shape param
                        then out @ [SizeMismatchExact name (shape t) (shape param)] else out)
            in if is_output_layer_name name then
                 (case assign_leading (zeros_like t) param of
                    Inl e \<Rightarrow> Inl e
                  | Inr new_param \<Rightarrow>
                      (case tensor_copy t new_param of
                         Inl e \<Rightarrow> Inl e
                       | Inr t' \<Rightarrow> Inr (dict_set name t' own_state, out1)))
               else (case tensor_copy t param of
                       Inl e \<Rightarrow> Inl e
                     | Inr t' \<Rightarrow> Inr (dict_set name t' own_state, out1)))))"

definition load_my_state_dict :: "model \<Rightarrow> state_dict \<Rightarrow> py_error + (model \<times> message list)" where
  "load_my_state_dict m sd =
     (case for_each load_entry sd (state m, [PrintKeys (map fst sd), PrintKeys (map fst (state m))]) of
        Inl e \<Rightarrow> Inl e
      | Inr (own_state, out) \<Rightarrow> Inr (m\<lparr>state := own_state\<rparr>, out))"

subsection \<open>\<^verbatim>\<open>load_my_state_dict\<close> of the statistics script (eval/mahalanobis.py, lines 76-89)\<close>

definition load_entry_eval ::
  "string \<times> tensor \<Rightarrow> state_dict \<times> message list \<Rightarrow> py_error + (state_dict \<times> message list)" where
  "load_entry_eval item acc =
     (case item of (name, param) \<Rightarrow> case acc of (own_state, out) \<Rightarrow>
      (case map_of own_state name of
         None \<Rightarrow>
           (if startswith name ''module.'' then
              (case map_of own_state (split_last name ''module.'') of
                 None \<Rightarrow> Inl KeyError
               | Some t \<Rightarrow>
                   (case tensor_copy t param of
                      Inl e \<Rightarrow> Inl e
                    | Inr t' \<Rightarrow> Inr (dict_set (split_last name ''module.'') t' own_state, out)))
            else Inr (own_state, out @ [NotLoaded name]))
       | Some t \<Rightarrow>
           (case tensor_copy t param of
              Inl e \<Rightarrow> Inl e
            | Inr t' \<Rightarrow> Inr (dict_set name t' own_state, out))))"

definition load_my_state_dict_eval :: "model \<Rightarrow> state_dict \<Rightarrow> py_error + (model \<times> message list)" where
  "load_my_state_dict_eval m sd =
     (case for_each load_entry_eval sd
             (state m, [PrintKeys (map fst sd), PrintKeys (map fst (state m))]) of
        Inl e \<Rightarrow> Inl e
      | Inr (own_state, out) \<Rightarrow> Inr (m\<lparr>state := own_state\<rparr>, out))"

section \<open>The statistics script \<^verbatim>\<open>eval/mahalanobis.py\<close>\<close>

subsection \<open>The two passes\<close>

text \<open>The number of classes of the statistics script (line 29).\<close>

definition NUM_CLASSES :: nat where
  "NUM_CLASSES = 19"

datatype device = Cpu | Cuda

text \<open>One batch of the loader (batch size 1): the image and its label map, flattened.\<close>

record 'img sample =
  image :: 'img
  labels :: "nat list"

text \<open>The tensors the loop updates (lines 96-100). \<^verbatim>\<open>pixel_count_per_class\<close> has dtype
  \<^verbatim>\<open>torch.int32\<close>: its additions wrap.\<close>

record accumulators =
  cov_matrix :: "real list list"
  num_images :: nat
  sum_per_class :: "real list list"
  pixel_count_per_class :: "32 word list"

text \<open>What \<^verbatim>\<open>np.save\<close> writes. A covariance accumulator divided by zero images holds no
  numbers.\<close>

datatype artifact = MeanFile "real list list" | CovFile "real list list" | CovFileNaN

text \<open>\<^verbatim>\<open>t[msk]\<close> for a boolean mask over the pixels.\<close>

definition masked :: "'a list \<Rightarrow> bool list \<Rightarrow> 'a list" where
  "masked ch msk = map fst (filter snd (zip ch msk))"

text \<open>\<^verbatim>\<open>result[:, mask]\<close>: the mask must have the shape of the pixel dimensions.\<close>

definition index_mask :: "real list list \<Rightarrow> bool list \<Rightarrow> py_error + real list list" where
  "index_mask res msk =
     (if list_all (\<lambda>ch. length ch = length msk) res
      then Inr (map (\<lambda>ch. masked ch msk) res) else Inl IndexError)"

text \<open>Lines 119-127, the body of the loop over the classes when no mean was given. The sum
  of the network output is added to \<^verbatim>\<open>sum_per_class\<close>: both must be on one device. The
  mask and its count stay on the CPU, which a CUDA tensor accepts for an index and for a
  scalar operand.\<close>

definition mean_class_step ::
  "real list list \<Rightarrow> device \<Rightarrow> device \<Rightarrow> nat list \<Rightarrow> nat \<Rightarrow> accumulators
   \<Rightarrow> py_error + accumulators" where
  "mean_class_step result result_device sum_device lbls c acc =
     (let msk = map (\<lambda>l. l = c) lbls
      in case index_mask result msk of
           Inl e \<Rightarrow> Inl e
         | Inr sel \<Rightarrow>
             if result_device \<noteq> sum_device then Inl RuntimeError
             else
             Inr (acc\<lparr>sum_per_class := (sum_per_class acc)
                        [c := map2 (+) (sum_per_class acc ! c) (map sum_list sel)],
                      pixel_count_per_class := (pixel_count_per_class acc)
                        [c := pixel_count_per_class acc ! c + of_nat (length (filter id msk))]\<rparr>))"

text \<open>\<^verbatim>\<open>result[:, mask] - pre_computed_mean[c].unsqueeze(1)\<close>: a column with one entry per
  channel, or a single entry, broadcast over the pixels.\<close>

definition subtract_column :: "real list list \<Rightarrow> real list \<Rightarrow> py_error + real list list" where
  "subtract_column sel row =
     (if length row = length sel then Inr (map2 (\<lambda>ch m. map (\<lambda>v. v - m) ch) sel row)
      else if length row = 1 then Inr (map (map (\<lambda>v. v - hd row)) sel)
      else Inl RuntimeError)"

text \<open>\<^verbatim>\<open>centered @ centered.T\<close>\<close>

definition matmul_transposed :: "real list list \<Rightarrow> real list list" where
  "matmul_transposed m = map (\<lambda>ri. map (\<lambda>rj. sum_list (map2 (*) ri rj)) m) m"

text \<open>Lines 130-138, the body of the loop over the classes when a mean was given. The operands
  of the subtraction must be on one device, and the product must be on the device of
  \<^verbatim>\<open>cov_matrix\<close>, which line 96 creates with \<^verbatim>\<open>device='cuda'\<close>.\<close>

definition cov_class_step ::
  "real list list \<Rightarrow> device \<Rightarrow> nat list \<Rightarrow> device \<times> real list list \<Rightarrow> nat \<Rightarrow> accumulators
   \<Rightarrow> py_error + accumulators" where
  "cov_class_step result result_device lbls pre_computed_mean c acc =
     (let msk = map (\<lambda>l. l = c) lbls
      in case index_mask result msk of
           Inl e \<Rightarrow> Inl e
         | Inr sel \<Rightarrow>
             (if c \<ge> length (snd pre_computed_mean) then Inl IndexError
              else if result_device \<noteq> fst pre_computed_mean then Inl RuntimeError
              else case subtract_column sel (snd pre_computed_mean ! c) of
                     Inl e \<Rightarrow> Inl e
                   | Inr centered \<Rightarrow>
                       if result_device \<noteq> Cuda then Inl RuntimeError
                       else
                       Inr (acc\<lparr>cov_matrix :=
                              map2 (map2 (+)) (cov_matrix acc) (matmul_transposed centered)\<rparr>)))"

text \<open>The device that follows the flag \<^verbatim>\<open>--cpu\<close>: the images and the model are moved to
  CUDA unless the flag is set (lines 73, 103), and \<^verbatim>\<open>sum_per_class\<close> and
  \<^verbatim>\<open>pixel_count_per_class\<close> are created on
  \<^verbatim>\<open>"cpu" if args.cpu else 'cuda'\<close> (lines 99-100).\<close>

definition selected_device :: "bool \<Rightarrow> device" where
  "selected_device cpu_flag = (if cpu_flag then Cpu else Cuda)"

text \<open>Lines 102-140, one image. The network is given as the function from the image and a channel
  to the values of that channel over the pixels; \<^verbatim>\<open>result[:NUM_CLASSES]\<close> keeps the first
  \<open>NUM_CLASSES\<close> channels, on the device of the images and the model. The model is always the
  \<^verbatim>\<open>ERFNet\<close> of line 71, for whose output the two branches of line 109 give the same
  tensor.\<close>

definition image_step ::
  "(device \<times> real list list) option \<Rightarrow> bool \<Rightarrow> ('img \<Rightarrow> nat \<Rightarrow> real list) \<Rightarrow> 'img sample
   \<Rightarrow> accumulators \<Rightarrow> py_error + accumulators" where
  "image_step pre_computed_mean cpu_flag net s acc =
     (let result = map (net (image s)) [0..<NUM_CLASSES];
          result_device = selected_device cpu_flag
      in case (case pre_computed_mean of
                 None \<Rightarrow>
                   for_each (mean_class_step result result_device (selected_device cpu_flag)
                               (labels s)) [0..<NUM_CLASSES] acc
               | Some pm \<Rightarrow>
                   for_each (cov_class_step result result_device (labels s) pm)
                     [0..<NUM_CLASSES] acc) of
           Inl e \<Rightarrow> Inl e
         | Inr acc' \<Rightarrow> Inr (acc'\<lparr>num_images := num_images acc' + 1\<rparr>))"

text \<open>Lines 144-146: the division happens only for a count that reads as positive.\<close>

definition finalize_mean_class :: "nat \<Rightarrow> accumulators \<Rightarrow> accumulators" where
  "finalize_mean_class c acc =
     (if sint (pixel_count_per_class acc ! c) > 0
      then acc\<lparr>sum_per_class := (sum_per_class acc)
                 [c := map (\<lambda>v. v / real_of_int (sint (pixel_count_per_class acc ! c)))
                         (sum_per_class acc ! c)]\<rparr>
      else acc)"

definition initial_accumulators :: accumulators where
  "initial_accumulators =
     \<lparr>cov_matrix = replicate NUM_CLASSES (replicate NUM_CLASSES 0), num_images = 0,
      sum_per_class = replicate NUM_CLASSES (replicate NUM_CLASSES 0),
      pixel_count_per_class = replicate NUM_CLASSES 0\<rparr>"

text \<open>The loop over the loader and what follows it (lines 102-157).\<close>

definition run_pass ::
  "(device \<times> real list list) option \<Rightarrow> bool \<Rightarrow> ('img \<Rightarrow> nat \<Rightarrow> real list) \<Rightarrow> 'img sample list
   \<Rightarrow> py_error + artifact" where
  "run_pass pre_computed_mean cpu_flag net loader =
     (case for_each (image_step pre_computed_mean cpu_flag net) loader initial_accumulators of
        Inl e \<Rightarrow> Inl e
      | Inr acc \<Rightarrow>
          (case pre_computed_mean of
             None \<Rightarrow> Inr (MeanFile (sum_per_class (fold finalize_mean_class [0..<NUM_CLASSES] acc)))
           | Some pm \<Rightarrow>
               (if num_images acc * 512 * 1024 = 0 then Inr CovFileNaN
                else Inr (CovFile (map (map (\<lambda>v. v / real (num_images acc * 512 * 1024)))
                                     (cov_matrix acc))))))"

subsection \<open>The function \<^verbatim>\<open>main\<close>\<close>

text \<open>The options of the script that its control flow reads: \<^verbatim>\<open>--cpu\<close> and \<^verbatim>\<open>--mean\<close>.\<close>

record stat_args =
  sa_cpu :: bool
  sa_mean :: string

text \<open>What the script finds on the machine: the dataset directory, a CUDA device, the array at
  \<^verbatim>\<open>mean_path\<close>, the weights at \<^verbatim>\<open>weightspath\<close>, the freshly built
  \<^verbatim>\<open>ERFNet(NUM_CLASSES+1)\<close>, the loader, and the forward pass of the network for given
  weights.\<close>

record 'img host =
  h_datadir_exists :: bool
  h_cuda_available :: bool
  h_mean_file :: "real list list option"
  h_weights_file :: "state_dict option"
  h_model :: model
  h_loader :: "'img sample list"
  h_forward :: "state_dict \<Rightarrow> 'img \<Rightarrow> nat \<Rightarrow> real list"

text \<open>\<^verbatim>\<open>torch.nn.DataParallel(model)\<close>: the names of the state dictionary gain the prefix
  \<^verbatim>\<open>module.\<close>\<close>

definition data_parallel_wrap :: "model \<Rightarrow> model" where
  "data_parallel_wrap m =
     m\<lparr>state := map (\<lambda>(k, v). (''module.'' @ k, v)) (state m), data_parallel := True\<rparr>"

text \<open>The function \<^verbatim>\<open>main\<close>. \<^verbatim>\<open>.cuda()\<close> and \<^verbatim>\<open>device='cuda'\<close> need a CUDA device:
  for the loaded mean (line 63), for the model unless \<^verbatim>\<open>--cpu\<close> is given (line 74), and
  for \<^verbatim>\<open>cov_matrix\<close> in either phase (line 96).\<close>

definition main_stats :: "stat_args \<Rightarrow> 'img host \<Rightarrow> py_error + artifact" where
  "main_stats a h =
     (let mean_is_computed = (length (sa_mean a) > 0)
      in if \<not> h_datadir_exists h then Inl AssertionError
      else
      case (if mean_is_computed
            then (case h_mean_file h of
                    None \<Rightarrow> Inl FileNotFoundError
                  | Some rows \<Rightarrow>
                      if h_cuda_available h then Inr (Some (Cuda, rows)) else Inl RuntimeError)
            else Inr None) of
        Inl e \<Rightarrow> Inl e
      | Inr pre_computed_mean \<Rightarrow>
          (if \<not> sa_cpu a \<and> \<not> h_cuda_available h then Inl RuntimeError
           else
           (let m = (if \<not> sa_cpu a then data_parallel_wrap (h_model h) else h_model h)
            in case h_weights_file h of
                 None \<Rightarrow> Inl FileNotFoundError
               | Some sd \<Rightarrow>
                   (case load_my_state_dict_eval m sd of
                      Inl e \<Rightarrow> Inl e
                    | Inr (m', out) \<Rightarrow>
                        if \<not> h_cuda_available h then Inl RuntimeError
                        else run_pass pre_computed_mean (sa_cpu a) (h_forward h (state m'))
                               (h_loader h)))))"

definition is_mean_file :: "artifact \<Rightarrow> bool" where
  "is_mean_file art = (case art of MeanFile M \<Rightarrow> True | _ \<Rightarrow> False)"

subsection \<open>Shapes\<close>

text \<open>The invariant of both passes: the accumulators keep their shapes.\<close>

definition shaped :: "accumulators \<Rightarrow> bool" where
  "shaped acc \<longleftrightarrow> length (sum_per_class acc) = NUM_CLASSES
     \<and> (\<forall>c<NUM_CLASSES. length (sum_per_class acc ! c) = NUM_CLASSES)
     \<and> length (pixel_count_per_class acc) = NUM_CLASSES
     \<and> length (cov_matrix acc) = NUM_CLASSES
     \<and> (\<forall>i<NUM_CLASSES. length (cov_matrix acc ! i) = NUM_CLASSES)"

subsection \<open>Sums over labelled pixels\<close>

text \<open>The quantities the claims speak of: the number of pixels labelled \<open>c\<close>, the sum of
  channel \<open>j\<close> over those pixels, and whether the network output has the size of the label
  map.\<close>

definition class_count :: "'img sample list \<Rightarrow> nat \<Rightarrow> nat" where
  "class_count ds c = sum_list (map (\<lambda>s. length (filter (\<lambda>l. l = c) (labels s))) ds)"

definition class_total :: "('img \<Rightarrow> nat \<Rightarrow> real list) \<Rightarrow> 'img sample list \<Rightarrow> nat \<Rightarrow> nat \<Rightarrow> real" where
  "class_total net ds c j =
     sum_list (map (\<lambda>s. sum_list (map fst (filter (\<lambda>(v, l). l = c)
                                     (zip (net (image s) j) (labels s))))) ds)"

definition well_shaped :: "('img \<Rightarrow> nat \<Rightarrow> real list) \<Rightarrow> 'img sample \<Rightarrow> bool" where
  "well_shaped net s =
     list_all (\<lambda>j. length (net (image s) j) = length (labels s)) [0..<NUM_CLASSES]"

text \<open>The centered products of channels \<open>i\<close> and \<open>j\<close> over the pixels of one image labelled
  \<open>c\<close>, and their sum over all classes and images.\<close>

definition class_scatter ::
  "('img \<Rightarrow> nat \<Rightarrow> real list) \<Rightarrow> real list list \<Rightarrow> 'img sample \<Rightarrow> nat \<Rightarrow> nat \<Rightarrow> nat \<Rightarrow> real" where
  "class_scatter net rows s c i j =
     sum_list (map (\<lambda>((vi, vj), l). (vi - rows ! c ! i) * (vj - rows ! c ! j))
                (filter (\<lambda>(p, l). l = c)
                   (zip (zip (net (image s) i) (net (image s) j)) (labels s))))"

definition pooled_scatter ::
  "('img \<Rightarrow> nat \<Rightarrow> real list) \<Rightarrow> real list list \<Rightarrow> 'img sample list \<Rightarrow> nat \<Rightarrow> nat \<Rightarrow> real" where
  "pooled_scatter net rows ds i j =
     sum_list (map (\<lambda>s. sum_list (map (\<lambda>c. class_scatter net rows s c i j) [0..<NUM_CLASSES])) ds)"

text \<open>The mean array has one row per class and one column per channel.\<close>

definition mean_shape_ok :: "real list list \<Rightarrow> bool" where
  "mean_shape_ok rows =
     (length rows = NUM_CLASSES \<and> list_all (\<lambda>r. length r = NUM_CLASSES) rows)"

text \<open>An entry of the saved array, when the run saved one.\<close>

definition saved_mean_entry :: "py_error + artifact \<Rightarrow> nat \<Rightarrow> nat \<Rightarrow> real option" where
  "saved_mean_entry r c j = (case r of Inr (MeanFile M) \<Rightarrow> Some (M ! c ! j) | _ \<Rightarrow> None)"

definition saved_cov_entry :: "py_error + artifact \<Rightarrow> nat \<Rightarrow> nat \<Rightarrow> real option" where
  "saved_cov_entry r i j = (case r of Inr (CovFile M) \<Rightarrow> Some (M ! i ! j) | _ \<Rightarrow> None)"

section \<open>Fixtures\<close>

subsection \<open>A small run used to exercise the definitions\<close>

definition fixture_args :: args where
  "fixture_args = \<lparr>cuda = False, model_name = Erfnet, num_epochs = 3, epochs_save = 2,
     savedir = ''run'', loss = ''CrossEntropy'', iouTrain = False, iouVal = True,
     resume = False, FineTune = False\<rparr>"

definition fixture_model :: model where
  "fixture_model = \<lparr>arch = ''ERFNet'', state = [(''encoder.w'', \<lparr>shape = [2], elems = [0, 0]\<rparr>)],
     data_parallel = False, has_loss_first_part = False\<rparr>"

text \<open>An environment whose validation pass has the given batch losses and the given IoU.\<close>

definition fixture_env :: "real list \<Rightarrow> real \<Rightarrow> nat environment" where
  "fixture_env vals iou = \<lparr>datadir_exists = True, init_optimizer = 0,
     run_passes = (\<lambda>epoch sd opt. \<lparr>new_state = sd, new_optimizer = opt + 1,
        train_losses = [1, 1 / 2], val_losses = vals,
        iou_train_value = 0, iou_val_value = iou, used_lr = 1 / 2\<rparr>)\<rparr>"

definition fixture_state :: "real \<Rightarrow> nat train_state" where
  "fixture_state best =
     \<lparr>ts_model = fixture_model, ts_optimizer = 0, ts_best_acc = best, ts_files = Map.empty\<rparr>"

text \<open>A loader of two images of three pixels, and a network for it.\<close>

definition tiny_net :: "nat \<Rightarrow> nat \<Rightarrow> real list" where
  "tiny_net img j = (if j = 0 then [1, 2, 3] else if j = 1 then [real img, 0, 1] else [0, 0, 0])"

definition tiny_loader :: "nat sample list" where
  "tiny_loader = [\<lparr>image = 4, labels = [0, 1, 0]\<rparr>, \<lparr>image = 6, labels = [1, 1, 19]\<rparr>]"

text \<open>A loader of 4096 images of 512 x 1024 pixels, all labelled 0, and a network that outputs 1
  everywhere.\<close>

definition overflow_net :: "unit \<Rightarrow> nat \<Rightarrow> real list" where
  "overflow_net img j = replicate 524288 1"

definition overflow_loader :: "unit sample list" where
  "overflow_loader = replicate 4096 \<lparr>image = (), labels = replicate 524288 0\<rparr>"



section \<open>The epoch-end policy\<close>

lemma checkpoint_names_differ: "filenameCheckpoint sdir enc \<noteq> filenameBest sdir enc"
  by (simp add: filenameCheckpoint_def filenameBest_def)

lemmas path_defs = filenameCheckpoint_def filenameBest_def snapshot_filename_def
  filenamebest_def best_txt_def automated_log_path_def modeltxtpath_def

lemmas body_defs = epoch_body_def Let_def average_def save_checkpoint_def save_model_def
  append_log_def

lemmas fixture_defs = fixture_args_def fixture_model_def fixture_env_def fixture_state_def

text \<open>C3, as stated, fails: with IoU evaluation enabled and a validation IoU of exactly 0
  the metric is the negated validation loss (here \<open>- 1\<close>), not the IoU.\<close>

theorem metric_with_zero_iou_counterexample: "current_acc (epoch_iouVal True 0) 1 \<noteq> 0"
  by (simp add: current_acc_def epoch_iouVal_def)

text \<open>C3, amended: at the end of every epoch that completes, the metric compared against the
  stored best is the validation IoU when IoU evaluation is enabled and that IoU is not zero,
  and the negative of the average validation loss when IoU evaluation is disabled or the
  IoU is exactly zero; the stored best becomes the larger of the two.\<close>

theorem epoch_metric_policy:
  assumes "epoch_body a env enc sdir epoch s = Inr s'"
  defines "r \<equiv> run_passes env epoch (state (ts_model s)) (ts_optimizer s)"
  shows "val_losses r \<noteq> [] \<and> ts_best_acc s' =
     max (if iouVal a \<and> iou_val_value r \<noteq> 0 then iou_val_value r
          else - (sum_list (val_losses r) / real (length (val_losses r)))) (ts_best_acc s)"
  using assms(1) unfolding r_def
  by (auto simp add: epoch_body_def Let_def average_def current_acc_def epoch_iouVal_def
      split: if_splits sum.splits)

text \<open>Witness for C3: one epoch of the small run with validation IoU 1/2 and stored best 0.\<close>

theorem epoch_metric_policy_witness:
  "\<not> isl (epoch_body fixture_args (fixture_env [1, 1, 1, 1] (1 / 2)) False ''../save/run'' 1
            (fixture_state 0))
   \<and> ts_best_acc (projr (epoch_body fixture_args (fixture_env [1, 1, 1, 1] (1 / 2)) False
                          ''../save/run'' 1 (fixture_state 0))) = 1 / 2"
proof -
  have "\<exists>s'. epoch_body fixture_args (fixture_env [1, 1, 1, 1] (1 / 2)) False ''../save/run'' 1
               (fixture_state 0) = Inr s'"
    by (simp add: body_defs path_defs fixture_defs epoch_iouVal_def current_acc_def
        snapshot_due_def)
  then obtain s' where h: "epoch_body fixture_args (fixture_env [1, 1, 1, 1] (1 / 2)) False
      ''../save/run'' 1 (fixture_state 0) = Inr s'" ..
  from epoch_metric_policy [OF h] show ?thesis using h
    by (auto simp add: fixture_defs)
qed

text \<open>C4: at the end of every epoch that completes, the rolling checkpoint is overwritten with
  the checkpoint of this epoch, and the best checkpoint and the stored best metric are
  replaced exactly when the metric of the epoch is strictly greater than the stored best; on
  a tie the earlier best checkpoint stays.\<close>

theorem best_checkpoint_strict_improvement:
  assumes "epoch_body a env enc sdir epoch s = Inr s'"
  defines "r \<equiv> run_passes env epoch (state (ts_model s)) (ts_optimizer s)"
  defines "cur \<equiv> current_acc (epoch_iouVal (iouVal a) (iou_val_value r))
                    (sum_list (val_losses r) / real (length (val_losses r)))"
  shows "\<exists>ck. ts_files s' (filenameCheckpoint sdir enc) = Some (CheckpointFile ck)
     \<and> ck_epoch ck = epoch + 1 \<and> ck_state_dict ck = new_state r
     \<and> ck_best_acc ck = ts_best_acc s'
     \<and> ts_files s' (filenameBest sdir enc) =
         (if cur > ts_best_acc s then Some (CheckpointFile ck)
          else ts_files s (filenameBest sdir enc))
     \<and> ts_best_acc s' = (if cur > ts_best_acc s then cur else ts_best_acc s)"
  using assms(1) unfolding r_def cur_def
  by (auto simp add: body_defs path_defs split: if_splits sum.splits)

text \<open>Witness for C4: a tie. The stored best is 1/2 and the epoch's IoU is 1/2: the rolling
  checkpoint is written, no best checkpoint is.\<close>

theorem best_checkpoint_strict_improvement_witness:
  "\<not> isl (epoch_body fixture_args (fixture_env [1, 1, 1, 1] (1 / 2)) False ''../save/run'' 1
            (fixture_state (1 / 2)))
   \<and> ts_files (projr (epoch_body fixture_args (fixture_env [1, 1, 1, 1] (1 / 2)) False
                        ''../save/run'' 1 (fixture_state (1 / 2))))
        (filenameCheckpoint ''../save/run'' False) \<noteq> None
   \<and> ts_files (projr (epoch_body fixture_args (fixture_env [1, 1, 1, 1] (1 / 2)) False
                        ''../save/run'' 1 (fixture_state (1 / 2))))
        (filenameBest ''../save/run'' False) = None"
proof -
  have "\<exists>s'. epoch_body fixture_args (fixture_env [1, 1, 1, 1] (1 / 2)) False ''../save/run'' 1
               (fixture_state (1 / 2)) = Inr s'"
    by (simp add: body_defs path_defs fixture_defs epoch_iouVal_def current_acc_def
        snapshot_due_def)
  then obtain s' where h: "epoch_body fixture_args (fixture_env [1, 1, 1, 1] (1 / 2)) False
      ''../save/run'' 1 (fixture_state (1 / 2)) = Inr s'" ..
  from best_checkpoint_strict_improvement [OF h] show ?thesis using h
    by (auto simp add: fixture_defs epoch_iouVal_def current_acc_def)
qed

section \<open>Weight reconciliation: what is skipped, what is padded, what raises\<close>

lemma tensor_elems_update: "t\<lparr>elems := xs\<rparr> = \<lparr>shape = shape t, elems = xs\<rparr>"
  by (cases t) simp

lemma dict_set_lookup: "map_of (dict_set k v d) k = Some v"
  by (induction d) auto

text \<open>A name that is in the model neither as it is nor without its \<^verbatim>\<open>module.\<close> prefix is
  reported and left out; so is a prefixed name whose stripped form is in the model with
  another shape.\<close>

lemma absent_name_skipped:
  assumes "map_of own_state name = None" and "\<not> startswith name ''module.''"
  shows "load_entry (name, param) (own_state, out) = Inr (own_state, out @ [SkippingAbsent name])"
  using assms by (simp add: load_entry_def)

lemma stripped_mismatch_skipped:
  assumes "map_of own_state name = None" and "startswith name ''module.''"
    and "map_of own_state (split_last name ''module.'') = Some t" and "shape t \<noteq> shape param"
  shows "load_entry (name, param) (own_state, out) =
     Inr (own_state, out @ [SizeMismatchStripped (split_last name ''module.'') (shape t) (shape param)])"
  using assms by (simp add: load_entry_def Let_def)

text \<open>C2 does not hold of the code. In the fine-tuning loader a name found in the model with
  another shape (here \<open>[3]\<close> against \<open>[2]\<close>) is reported and then copied all the same, and
  the copy raises. In the statistics script a prefixed name whose stripped form is not in
  the model raises \<^verbatim>\<open>KeyError\<close>.\<close>

theorem load_my_state_dict_raises_on_mismatch:
  "load_my_state_dict fixture_model [(''encoder.w'', \<lparr>shape = [3], elems = [1, 2, 3]\<rparr>)]
     = Inl RuntimeError
   \<and> load_my_state_dict_eval fixture_model
       [(''module.decoder.w'', \<lparr>shape = [2], elems = [1, 2]\<rparr>)] = Inl KeyError"
  by (simp add: load_my_state_dict_def load_my_state_dict_eval_def load_entry_def
      load_entry_eval_def fixture_model_def is_output_layer_name_def tensor_copy_def
      split_last_def Let_def)

text \<open>C5, as stated, fails on two kinds of source weights it covers. An output-layer name that
  matches the model only after its \<^verbatim>\<open>module.\<close> prefix is stripped is reported and skipped
  when the shapes differ (lines 503-505): the model's tensor is left as it was. An output-layer
  name found in the model whose source is smaller in another dimension than the leading one
  (\<open>[2, 2]\<close> against \<open>[3, 3]\<close>) makes the slice assignment of line 515 raise.\<close>

theorem output_layer_padding_counterexample:
  "load_entry (''module.conv_out.conv_out.weight'', \<lparr>shape = [2, 2], elems = [1, 2, 3, 4]\<rparr>)
     ([(''conv_out.conv_out.weight'', \<lparr>shape = [3, 2], elems = [9, 9, 9, 9, 9, 9]\<rparr>)], [])
   = Inr ([(''conv_out.conv_out.weight'', \<lparr>shape = [3, 2], elems = [9, 9, 9, 9, 9, 9]\<rparr>)],
          [SizeMismatchStripped ''conv_out.conv_out.weight'' [3, 2] [2, 2]])
   \<and> load_entry (''conv_out.conv_out.weight'', \<lparr>shape = [2, 2], elems = [1, 2, 3, 4]\<rparr>)
     ([(''conv_out.conv_out.weight'',
        \<lparr>shape = [3, 3], elems = [9, 9, 9, 9, 9, 9, 9, 9, 9]\<rparr>)], [])
   = Inl RuntimeError"
  by (simp add: load_entry_def is_output_layer_name_def split_last_def assign_leading_def
      tensor_copy_def zeros_like_def numel_def Let_def)

text \<open>C5, amended: a source weight whose name is itself a key of the model and is an
  output-layer name, and whose shape has no more rows than the model's (leading dimension
  \<open>n \<le> m\<close>) with all other dimensions equal, leaves in the model a tensor of the model's
  shape whose first \<open>n\<close> rows are the source values, unchanged, and whose other rows are zero.
  Elements are listed in row-major order, so the leading rows are the front of the list.\<close>

theorem output_layer_rows_zero_padded:
  assumes "map_of own_state name = Some t"
    and "is_output_layer_name name"
    and "shape param = n # rest" and "shape t = m # rest" and "n \<le> m"
    and "length (elems param) = n * numel rest"
  shows "load_entry (name, param) (own_state, out) =
     Inr (dict_set name \<lparr>shape = m # rest,
                         elems = elems param @ replicate ((m - n) * numel rest) 0\<rparr> own_state,
          if n = m then out else out @ [SizeMismatchExact name (m # rest) (n # rest)])"
  using assms
  by (auto simp add: load_entry_def assign_leading_def tensor_copy_def zeros_like_def numel_def
      Let_def min_def diff_mult_distrib tensor_elems_update)

text \<open>Witness for C5: an output layer grown from two classes to three.\<close>

theorem output_layer_rows_zero_padded_witness:
  "load_entry (''conv_out.conv_out.weight'', \<lparr>shape = [2, 2], elems = [1, 2, 3, 4]\<rparr>)
     ([(''conv_out.conv_out.weight'', \<lparr>shape = [3, 2], elems = [9, 9, 9, 9, 9, 9]\<rparr>)], [])
   = Inr ([(''conv_out.conv_out.weight'', \<lparr>shape = [3, 2], elems = [1, 2, 3, 4, 0, 0]\<rparr>)],
          [SizeMismatchExact ''conv_out.conv_out.weight'' [3, 2] [2, 2]])"
  using output_layer_rows_zero_padded [of
      "[(''conv_out.conv_out.weight'', \<lparr>shape = [3, 2], elems = [9, 9, 9, 9, 9, 9]\<rparr>)]"
      "''conv_out.conv_out.weight''" "\<lparr>shape = [3, 2], elems = [9, 9, 9, 9, 9, 9]\<rparr>"
      "\<lparr>shape = [2, 2], elems = [1, 2, 3, 4]\<rparr>" 2 "[2]" 3 "[]"]
  by (simp add: is_output_layer_name_def numel_def numeral_2_eq_2)

section \<open>The periodic snapshot\<close>

text \<open>Whether the numbered snapshot of an epoch is written depends on the number of
  validation batches, not on the epoch.\<close>

lemma snapshot_written_iff:
  assumes "epoch_body a env enc sdir epoch s = Inr s'"
    and "ts_files s (snapshot_filename sdir enc epoch) = None"
  shows "ts_files s' (snapshot_filename sdir enc epoch) \<noteq> None \<longleftrightarrow>
     snapshot_due (epochs_save a)
       (int (length (val_losses (run_passes env epoch (state (ts_model s)) (ts_optimizer s)))) - 1)"
  using assms
  by (auto simp add: body_defs path_defs split: if_splits sum.splits)

text \<open>C9 does not hold of the code. With the interval 2 and four validation batches the
  snapshot of epoch 2 is not written; with three validation batches the snapshot of epoch 1
  is.\<close>

theorem periodic_snapshot_tests_val_step:
  "\<not> isl (epoch_body fixture_args (fixture_env [1, 1, 1, 1] (1 / 2)) False ''../save/run'' 2
            (fixture_state 0))
   \<and> ts_files (projr (epoch_body fixture_args (fixture_env [1, 1, 1, 1] (1 / 2)) False
                        ''../save/run'' 2 (fixture_state 0)))
        (snapshot_filename ''../save/run'' False 2) = None
   \<and> \<not> isl (epoch_body fixture_args (fixture_env [1, 1, 1] (1 / 2)) False ''../save/run'' 1
              (fixture_state 0))
   \<and> ts_files (projr (epoch_body fixture_args (fixture_env [1, 1, 1] (1 / 2)) False
                        ''../save/run'' 1 (fixture_state 0)))
        (snapshot_filename ''../save/run'' False 1) \<noteq> None"
  by (simp add: body_defs path_defs fixture_defs epoch_iouVal_def current_acc_def
      snapshot_due_def fmt03_def decimal.simps digit_char_def)

section \<open>Resuming a run\<close>

text \<open>Whatever the checkpoint holds, a run started with the resume option ends in an
  exception before its first epoch.\<close>

lemma train_resume_never_returns: "resume a \<Longrightarrow> isl (train a env m enc fs)"
  by (auto simp: train_def resume_checkpoint_def Let_def
      split: option.splits stored_file.splits sum.splits)

text \<open>C1 does not hold of the code. A one-epoch run writes its rolling checkpoint; the run
  resumed from it loads the weights and then raises \<^verbatim>\<open>UnboundLocalError\<close> at
  \<^verbatim>\<open>optimizer.load_state_dict\<close>, before any epoch and any log row.\<close>

theorem train_resume_raises_unbound_optimizer:
  "\<not> isl (train (fixture_args\<lparr>num_epochs := 1\<rparr>) (fixture_env [1, 1, 1, 1] (1 / 2))
            fixture_model False Map.empty)
   \<and> train (fixture_args\<lparr>resume := True\<rparr>) (fixture_env [1, 1, 1, 1] (1 / 2)) fixture_model False
       (ts_files (projr (train (fixture_args\<lparr>num_epochs := 1\<rparr>)
                          (fixture_env [1, 1, 1, 1] (1 / 2)) fixture_model False Map.empty)))
     = Inl UnboundLocalError"
  by (simp add: train_def resume_checkpoint_def torch_load_state_dict_def strip_module_keys_def
      py_replace_def body_defs path_defs fixture_defs epoch_iouVal_def current_acc_def
      snapshot_due_def fmt03_def decimal.simps digit_char_def)

section \<open>The mean pass and the covariance pass\<close>

text \<open>A loop over an appended list runs over the first part, then over the second.\<close>

lemma for_each_append:
  "for_each body (xs @ ys) s =
     (case for_each body xs s of Inl e \<Rightarrow> Inl e | Inr s' \<Rightarrow> for_each body ys s')"
  by (induction xs arbitrary: s) (auto split: sum.splits)

lemma masked_class:
  "masked ch (map (\<lambda>l. l = c) lbls) = map fst (filter (\<lambda>(v, l). l = c) (zip ch lbls))"
  by (induction ch lbls rule: list_induct2') (auto simp: masked_def)

lemma count_mask: "length (filter id (map (\<lambda>l. l = c) lbls)) = length (filter (\<lambda>l. l = c) lbls)"
  by (induction lbls) auto

lemma mean_class_loop:
  assumes "well_shaped net s" and "shaped acc" and "n \<le> NUM_CLASSES"
  shows "\<exists>acc'. for_each (mean_class_step (map (net (image s)) [0..<NUM_CLASSES]) dev dev
                           (labels s)) [0..<n] acc = Inr acc'
     \<and> shaped acc' \<and> num_images acc' = num_images acc \<and> cov_matrix acc' = cov_matrix acc
     \<and> (\<forall>c<NUM_CLASSES. \<forall>j<NUM_CLASSES. sum_per_class acc' ! c ! j =
           (if c < n then sum_per_class acc ! c ! j
               + sum_list (map fst (filter (\<lambda>(v, l). l = c) (zip (net (image s) j) (labels s))))
            else sum_per_class acc ! c ! j))
     \<and> (\<forall>c<NUM_CLASSES. pixel_count_per_class acc' ! c =
           (if c < n then pixel_count_per_class acc ! c
               + of_nat (length (filter (\<lambda>l. l = c) (labels s)))
            else pixel_count_per_class acc ! c))"
  using assms(3)
proof (induction n)
  case 0
  then show ?case using assms(2) by simp
next
  case (Suc n)
  then obtain acc1 where a1: "for_each (mean_class_step (map (net (image s)) [0..<NUM_CLASSES]) dev dev (labels s)) [0..<n] acc = Inr acc1"
    and s1: "shaped acc1" and n1: "num_images acc1 = num_images acc" "cov_matrix acc1 = cov_matrix acc"
    and sum1: "\<forall>c<NUM_CLASSES. \<forall>j<NUM_CLASSES. sum_per_class acc1 ! c ! j =
           (if c < n then sum_per_class acc ! c ! j
               + sum_list (map fst (filter (\<lambda>(v, l). l = c) (zip (net (image s) j) (labels s))))
            else sum_per_class acc ! c ! j)"
    and pc1: "\<forall>c<NUM_CLASSES. pixel_count_per_class acc1 ! c =
           (if c < n then pixel_count_per_class acc ! c
               + of_nat (length (filter (\<lambda>l. l = c) (labels s)))
            else pixel_count_per_class acc ! c)"
    by auto
  have idx: "index_mask (map (net (image s)) [0..<NUM_CLASSES]) (map (\<lambda>l. l = n) (labels s))
      = Inr (map (\<lambda>ch. masked ch (map (\<lambda>l. l = n) (labels s))) (map (net (image s)) [0..<NUM_CLASSES]))"
    using assms(1) by (simp add: index_mask_def well_shaped_def list_all_iff)
  define acc2 where "acc2 = acc1\<lparr>sum_per_class := (sum_per_class acc1)
        [n := map2 (+) (sum_per_class acc1 ! n)
           (map sum_list (map (\<lambda>ch. masked ch (map (\<lambda>l. l = n) (labels s))) (map (net (image s)) [0..<NUM_CLASSES])))],
      pixel_count_per_class := (pixel_count_per_class acc1)
        [n := pixel_count_per_class acc1 ! n + of_nat (length (filter id (map (\<lambda>l. l = n) (labels s))))]\<rparr>"
  have step: "mean_class_step (map (net (image s)) [0..<NUM_CLASSES]) dev dev (labels s) n acc1 = Inr acc2"
    by (simp add: mean_class_step_def Let_def idx acc2_def)
  have run: "for_each (mean_class_step (map (net (image s)) [0..<NUM_CLASSES]) dev dev (labels s)) [0..<Suc n] acc = Inr acc2"
    by (simp add: for_each_append a1 step)
  have nlt: "n < NUM_CLASSES" using Suc.prems by simp
  have sh2: "shaped acc2"
    using s1 nlt by (auto simp: shaped_def acc2_def nth_list_update)
  have sum2: "\<forall>c<NUM_CLASSES. \<forall>j<NUM_CLASSES. sum_per_class acc2 ! c ! j =
           (if c < Suc n then sum_per_class acc ! c ! j
               + sum_list (map fst (filter (\<lambda>(v, l). l = c) (zip (net (image s) j) (labels s))))
            else sum_per_class acc ! c ! j)"
    using s1 nlt sum1
    by (auto simp: shaped_def acc2_def nth_list_update masked_class less_Suc_eq)
  have pc2: "\<forall>c<NUM_CLASSES. pixel_count_per_class acc2 ! c =
           (if c < Suc n then pixel_count_per_class acc ! c
               + of_nat (length (filter (\<lambda>l. l = c) (labels s)))
            else pixel_count_per_class acc ! c)"
    using s1 nlt pc1
    by (auto simp: shaped_def acc2_def nth_list_update count_mask less_Suc_eq)
  show ?case using run sh2 sum2 pc2 n1 by (auto simp: acc2_def)
qed


lemma mean_image_step:
  assumes "well_shaped net s" and "shaped acc"
  shows "\<exists>acc'. image_step None cpu_flag net s acc = Inr acc'
     \<and> shaped acc' \<and> num_images acc' = num_images acc + 1 \<and> cov_matrix acc' = cov_matrix acc
     \<and> (\<forall>c<NUM_CLASSES. \<forall>j<NUM_CLASSES. sum_per_class acc' ! c ! j =
           sum_per_class acc ! c ! j
             + sum_list (map fst (filter (\<lambda>(v, l). l = c) (zip (net (image s) j) (labels s)))))
     \<and> (\<forall>c<NUM_CLASSES. pixel_count_per_class acc' ! c =
           pixel_count_per_class acc ! c + of_nat (length (filter (\<lambda>l. l = c) (labels s))))"
proof -
  from mean_class_loop [OF assms, of NUM_CLASSES "selected_device cpu_flag"]
  obtain acc1 where a1: "for_each (mean_class_step (map (net (image s)) [0..<NUM_CLASSES])
        (selected_device cpu_flag) (selected_device cpu_flag) (labels s))
        [0..<NUM_CLASSES] acc = Inr acc1"
    and s1: "shaped acc1" and n1: "num_images acc1 = num_images acc" "cov_matrix acc1 = cov_matrix acc"
    and sum1: "\<forall>c<NUM_CLASSES. \<forall>j<NUM_CLASSES. sum_per_class acc1 ! c ! j =
           sum_per_class acc ! c ! j
             + sum_list (map fst (filter (\<lambda>(v, l). l = c) (zip (net (image s) j) (labels s))))"
    and pc1: "\<forall>c<NUM_CLASSES. pixel_count_per_class acc1 ! c =
           pixel_count_per_class acc ! c + of_nat (length (filter (\<lambda>l. l = c) (labels s)))"
    by auto
  have "image_step None cpu_flag net s acc = Inr (acc1\<lparr>num_images := num_images acc1 + 1\<rparr>)"
    by (simp add: image_step_def Let_def a1)
  moreover have "shaped (acc1\<lparr>num_images := num_images acc1 + 1\<rparr>)"
    using s1 by (simp add: shaped_def)
  ultimately show ?thesis using n1 sum1 pc1 by simp
qed

lemma mean_loader_loop:
  assumes "list_all (well_shaped net) ds" and "shaped acc"
  shows "\<exists>acc'. for_each (image_step None cpu_flag net) ds acc = Inr acc'
     \<and> shaped acc' \<and> num_images acc' = num_images acc + length ds
     \<and> (\<forall>c<NUM_CLASSES. \<forall>j<NUM_CLASSES. sum_per_class acc' ! c ! j =
           sum_per_class acc ! c ! j + class_total net ds c j)
     \<and> (\<forall>c<NUM_CLASSES. pixel_count_per_class acc' ! c =
           pixel_count_per_class acc ! c + of_nat (class_count ds c))"
  using assms
proof (induction ds arbitrary: acc)
  case Nil
  then show ?case by (simp add: class_total_def class_count_def)
next
  case (Cons s ds)
  from Cons.prems have ws: "well_shaped net s" and wds: "list_all (well_shaped net) ds" by simp_all
  from mean_image_step [OF ws Cons.prems(2), of cpu_flag]
  obtain acc1 where a1: "image_step None cpu_flag net s acc = Inr acc1"
    and s1: "shaped acc1" and n1: "num_images acc1 = num_images acc + 1"
    and sum1: "\<forall>c<NUM_CLASSES. \<forall>j<NUM_CLASSES. sum_per_class acc1 ! c ! j =
           sum_per_class acc ! c ! j
             + sum_list (map fst (filter (\<lambda>(v, l). l = c) (zip (net (image s) j) (labels s))))"
    and pc1: "\<forall>c<NUM_CLASSES. pixel_count_per_class acc1 ! c =
           pixel_count_per_class acc ! c + of_nat (length (filter (\<lambda>l. l = c) (labels s)))"
    by auto
  from Cons.IH [OF wds s1]
  obtain acc2 where a2: "for_each (image_step None cpu_flag net) ds acc1 = Inr acc2"
    and s2: "shaped acc2" and n2: "num_images acc2 = num_images acc1 + length ds"
    and sum2: "\<forall>c<NUM_CLASSES. \<forall>j<NUM_CLASSES. sum_per_class acc2 ! c ! j =
           sum_per_class acc1 ! c ! j + class_total net ds c j"
    and pc2: "\<forall>c<NUM_CLASSES. pixel_count_per_class acc2 ! c =
           pixel_count_per_class acc1 ! c + of_nat (class_count ds c)"
    by auto
  have "for_each (image_step None cpu_flag net) (s # ds) acc = Inr acc2"
    by (simp add: a1 a2)
  then show ?case using s2 n1 n2 sum1 sum2 pc1 pc2
    by (simp add: class_total_def class_count_def)
qed

lemma finalize_loop:
  assumes "shaped acc" and "n \<le> NUM_CLASSES"
  shows "length (sum_per_class (fold finalize_mean_class [0..<n] acc)) = NUM_CLASSES
     \<and> pixel_count_per_class (fold finalize_mean_class [0..<n] acc) = pixel_count_per_class acc
     \<and> (\<forall>c<NUM_CLASSES. sum_per_class (fold finalize_mean_class [0..<n] acc) ! c =
          (if c < n \<and> sint (pixel_count_per_class acc ! c) > 0
           then map (\<lambda>v. v / real_of_int (sint (pixel_count_per_class acc ! c)))
                  (sum_per_class acc ! c)
           else sum_per_class acc ! c))"
  using assms(2)
proof (induction n)
  case 0
  then show ?case using assms(1) by (simp add: shaped_def)
next
  case (Suc n)
  then show ?case
    by (auto simp: finalize_mean_class_def nth_list_update less_Suc_eq)
qed

lemma shaped_initial: "shaped initial_accumulators"
  by (simp add: shaped_def initial_accumulators_def)

lemma mean_pass_entries:
  assumes "list_all (well_shaped net) ds" and "c < NUM_CLASSES" and "j < NUM_CLASSES"
  shows "\<exists>M. run_pass None cpu_flag net ds = Inr (MeanFile M) \<and> length M = NUM_CLASSES
     \<and> length (M ! c) = NUM_CLASSES \<and> M ! c ! j =
         (if sint (word_of_nat (class_count ds c) :: 32 word) > 0
          then class_total net ds c j / real_of_int (sint (word_of_nat (class_count ds c) :: 32 word))
          else class_total net ds c j)"
proof -
  from mean_loader_loop [OF assms(1) shaped_initial, of cpu_flag]
  obtain acc where a: "for_each (image_step None cpu_flag net) ds initial_accumulators = Inr acc"
    and sh: "shaped acc"
    and sums: "\<forall>c<NUM_CLASSES. \<forall>j<NUM_CLASSES. sum_per_class acc ! c ! j =
           sum_per_class initial_accumulators ! c ! j + class_total net ds c j"
    and pcs: "\<forall>c<NUM_CLASSES. pixel_count_per_class acc ! c =
           pixel_count_per_class initial_accumulators ! c + of_nat (class_count ds c)"
    by auto
  have s0: "sum_per_class acc ! c ! j = class_total net ds c j"
    using sums assms(2,3) by (simp add: initial_accumulators_def)
  have p0: "pixel_count_per_class acc ! c = of_nat (class_count ds c)"
    using pcs assms(2) by (simp add: initial_accumulators_def)
  have len: "length (sum_per_class acc ! c) = NUM_CLASSES"
    using sh assms(2) by (simp add: shaped_def)
  from finalize_loop [OF sh, of NUM_CLASSES] assms(2,3) s0 p0 len
  show ?thesis by (simp add: run_pass_def a)
qed


lemma no_pixels_no_values:
  "filter (\<lambda>l. l = c) lbls = [] \<Longrightarrow> filter (\<lambda>(v, l). l = c) (zip ch lbls) = []"
  by (auto simp: filter_empty_conv dest: set_zip_rightD)

lemma no_pixels_no_total: "class_count ds c = 0 \<Longrightarrow> class_total net ds c j = 0"
  by (induction ds) (auto simp: class_count_def class_total_def no_pixels_no_values)

lemma sint_count: "n < 2 ^ 31 \<Longrightarrow> sint (word_of_nat n :: 32 word) = int n"
  by (simp add: signed_of_nat signed_take_bit_int_eq_self)

text \<open>C6, amended: when every network output has the size of its label map, the mean pass
  saves, for every class \<open>c\<close> with at least one and fewer than \<open>2^31\<close> labelled pixels, the sum
  of the feature values at exactly the pixels labelled \<open>c\<close> divided by their number, and for a
  class with no labelled pixel the value 0, in every channel. Sums and quotients are those of
  the real numbers.\<close>

theorem per_class_mean_is_arithmetic_mean:
  assumes "list_all (well_shaped net) ds" and "c < NUM_CLASSES" and "j < NUM_CLASSES"
    and "class_count ds c < 2 ^ 31"
  shows "saved_mean_entry (run_pass None cpu_flag net ds) c j =
     Some (if class_count ds c = 0 then 0
           else class_total net ds c j / real (class_count ds c))"
proof -
  from mean_pass_entries [OF assms(1-3), of cpu_flag] obtain M
    where "run_pass None cpu_flag net ds = Inr (MeanFile M)"
      and "M ! c ! j =
         (if sint (word_of_nat (class_count ds c) :: 32 word) > 0
          then class_total net ds c j / real_of_int (sint (word_of_nat (class_count ds c) :: 32 word))
          else class_total net ds c j)"
    by auto
  then show ?thesis
    using no_pixels_no_total [of ds c net j]
    by (auto simp: saved_mean_entry_def sint_count [OF assms(4)])
qed

lemma count_overflow: "class_count overflow_loader 0 = 2147483648"
  by (simp add: class_count_def overflow_loader_def sum_list_replicate)

lemma total_overflow: "class_total overflow_net overflow_loader 0 0 = 2147483648"
  by (simp add: class_total_def overflow_loader_def overflow_net_def sum_list_replicate
      zip_replicate map_replicate_const)

text \<open>C6, as stated, fails: the pixel counter is a 32-bit integer. With 4096 images of
  \<open>512 \<times> 1024\<close> pixels, all labelled 0, the counter of class 0 wraps to \<open>- 2^31\<close>, the test
  \<^verbatim>\<open>pixel_count_per_class[c] > 0\<close> fails and the saved entry is the undivided sum, while the
  arithmetic mean is 1.\<close>

theorem mean_with_wrapped_counter_counterexample:
  "saved_mean_entry (run_pass None True overflow_net overflow_loader) 0 0 = Some 2147483648
   \<and> class_total overflow_net overflow_loader 0 0 / real (class_count overflow_loader 0) = 1"
proof -
  have ws: "list_all (well_shaped overflow_net) overflow_loader"
    by (simp add: overflow_loader_def well_shaped_def overflow_net_def list_all_iff)
  from mean_pass_entries [OF ws, of 0 0 True] obtain M
    where "run_pass None True overflow_net overflow_loader = Inr (MeanFile M)"
      and "M ! 0 ! 0 =
         (if sint (word_of_nat (class_count overflow_loader 0) :: 32 word) > 0
          then class_total overflow_net overflow_loader 0 0
                 / real_of_int (sint (word_of_nat (class_count overflow_loader 0) :: 32 word))
          else class_total overflow_net overflow_loader 0 0)"
    by (auto simp: NUM_CLASSES_def)
  then show ?thesis
    by (simp add: saved_mean_entry_def count_overflow total_overflow)
qed

text \<open>Witness for C6: class 1 of the two-image loader, channel 0.\<close>

theorem per_class_mean_is_arithmetic_mean_witness:
  "saved_mean_entry (run_pass None True tiny_net tiny_loader) 1 0 = Some (5 / 3)"
proof -
  have ws: "list_all (well_shaped tiny_net) tiny_loader"
    by (simp add: tiny_loader_def well_shaped_def tiny_net_def list_all_iff NUM_CLASSES_def)
  have cnt: "class_count tiny_loader (Suc 0) = 3"
    by (simp add: class_count_def tiny_loader_def)
  have tot: "class_total tiny_net tiny_loader (Suc 0) 0 = 5"
    by (simp add: class_total_def tiny_loader_def tiny_net_def)
  from per_class_mean_is_arithmetic_mean [OF ws, of 1 0 True] show ?thesis
    by (simp add: cnt tot NUM_CLASSES_def)
qed


lemma scatter_masked:
  assumes "length a = length b" and "length b = length lbls"
  shows "sum_list (map2 (*) (map (\<lambda>v. v - x) (masked a (map (\<lambda>l. l = c) lbls)))
                           (map (\<lambda>v. v - y) (masked b (map (\<lambda>l. l = c) lbls))))
     = sum_list (map (\<lambda>((vi, vj), l). (vi - x) * (vj - y))
                  (filter (\<lambda>(p, l). l = c) (zip (zip a b) lbls)))"
  using assms by (induction a b lbls rule: list_induct3) (auto simp: masked_def)

lemma cov_class_loop:
  assumes "well_shaped net s" and "shaped acc" and "mean_shape_ok rows" and "n \<le> NUM_CLASSES"
  shows "\<exists>acc'. for_each (cov_class_step (map (net (image s)) [0..<NUM_CLASSES]) Cuda (labels s)
                           (Cuda, rows)) [0..<n] acc = Inr acc'
     \<and> shaped acc' \<and> num_images acc' = num_images acc
     \<and> (\<forall>i<NUM_CLASSES. \<forall>j<NUM_CLASSES. cov_matrix acc' ! i ! j =
           cov_matrix acc ! i ! j + sum_list (map (\<lambda>c. class_scatter net rows s c i j) [0..<n]))"
  using assms(4)
proof (induction n)
  case 0
  then show ?case using assms(2) by simp
next
  case (Suc n)
  let ?R = "map (net (image s)) [0..<NUM_CLASSES]"
  let ?m = "map (\<lambda>l. l = n) (labels s)"
  from Suc obtain acc1 where a1: "for_each (cov_class_step ?R Cuda (labels s) (Cuda, rows)) [0..<n] acc
        = Inr acc1"
    and s1: "shaped acc1" and n1: "num_images acc1 = num_images acc"
    and cov1: "\<forall>i<NUM_CLASSES. \<forall>j<NUM_CLASSES. cov_matrix acc1 ! i ! j =
           cov_matrix acc ! i ! j + sum_list (map (\<lambda>c. class_scatter net rows s c i j) [0..<n])"
    by auto
  have nlt: "n < NUM_CLASSES" using Suc.prems by simp
  have lens: "\<forall>j<NUM_CLASSES. length (net (image s) j) = length (labels s)"
    using assms(1) by (simp add: well_shaped_def list_all_iff)
  have idx: "index_mask ?R ?m = Inr (map (\<lambda>ch. masked ch ?m) ?R)"
    using lens by (simp add: index_mask_def list_all_iff)
  have rowlen: "length (rows ! n) = NUM_CLASSES" "length rows = NUM_CLASSES"
    using assms(3) nlt by (simp_all add: mean_shape_ok_def list_all_length)
  define centered where
    "centered = map2 (\<lambda>ch m. map (\<lambda>v. v - m) ch) (map (\<lambda>ch. masked ch ?m) ?R) (rows ! n)"
  have sub: "subtract_column (map (\<lambda>ch. masked ch ?m) ?R) (rows ! n) = Inr centered"
    by (simp add: subtract_column_def rowlen centered_def)
  define acc2 where
    "acc2 = acc1\<lparr>cov_matrix := map2 (map2 (+)) (cov_matrix acc1) (matmul_transposed centered)\<rparr>"
  have step: "cov_class_step ?R Cuda (labels s) (Cuda, rows) n acc1 = Inr acc2"
    using nlt by (simp add: cov_class_step_def Let_def idx sub acc2_def rowlen del: map_map)
  have run: "for_each (cov_class_step ?R Cuda (labels s) (Cuda, rows)) [0..<Suc n] acc = Inr acc2"
    by (simp add: for_each_append a1 step)
  have clen: "length centered = NUM_CLASSES"
    by (simp add: centered_def rowlen)
  have crow: "centered ! i = map (\<lambda>v. v - rows ! n ! i) (masked (net (image s) i) ?m)"
    if "i < NUM_CLASSES" for i
    using that by (simp add: centered_def rowlen)
  have mlen: "length (matmul_transposed centered) = NUM_CLASSES"
    "\<forall>i<NUM_CLASSES. length (matmul_transposed centered ! i) = NUM_CLASSES"
    by (simp_all add: matmul_transposed_def clen)
  have ment: "matmul_transposed centered ! i ! j = class_scatter net rows s n i j"
    if "i < NUM_CLASSES" "j < NUM_CLASSES" for i j
  proof -
    have "matmul_transposed centered ! i ! j = sum_list (map2 (*) (centered ! i) (centered ! j))"
      using that by (simp add: matmul_transposed_def clen)
    also have "\<dots> = class_scatter net rows s n i j"
      using that lens by (simp add: crow class_scatter_def scatter_masked)
    finally show ?thesis .
  qed
  have sh2: "shaped acc2"
    using s1 mlen by (auto simp: shaped_def acc2_def)
  have cov2: "\<forall>i<NUM_CLASSES. \<forall>j<NUM_CLASSES. cov_matrix acc2 ! i ! j =
           cov_matrix acc ! i ! j + sum_list (map (\<lambda>c. class_scatter net rows s c i j) [0..<Suc n])"
    using s1 mlen cov1 ment by (auto simp: shaped_def acc2_def)
  show ?case using run sh2 cov2 n1 by (auto simp: acc2_def)
qed

lemma cov_image_step:
  assumes "well_shaped net s" and "shaped acc" and "mean_shape_ok rows"
  shows "\<exists>acc'. image_step (Some (Cuda, rows)) False net s acc = Inr acc'
     \<and> shaped acc' \<and> num_images acc' = num_images acc + 1
     \<and> (\<forall>i<NUM_CLASSES. \<forall>j<NUM_CLASSES. cov_matrix acc' ! i ! j =
           cov_matrix acc ! i ! j
             + sum_list (map (\<lambda>c. class_scatter net rows s c i j) [0..<NUM_CLASSES]))"
proof -
  from cov_class_loop [OF assms, of NUM_CLASSES]
  obtain acc1 where a1: "for_each (cov_class_step (map (net (image s)) [0..<NUM_CLASSES]) Cuda
        (labels s) (Cuda, rows)) [0..<NUM_CLASSES] acc = Inr acc1"
    and s1: "shaped acc1" and n1: "num_images acc1 = num_images acc"
    and cov1: "\<forall>i<NUM_CLASSES. \<forall>j<NUM_CLASSES. cov_matrix acc1 ! i ! j =
           cov_matrix acc ! i ! j
             + sum_list (map (\<lambda>c. class_scatter net rows s c i j) [0..<NUM_CLASSES])"
    by auto
  have "image_step (Some (Cuda, rows)) False net s acc = Inr (acc1\<lparr>num_images := num_images acc1 + 1\<rparr>)"
    by (simp add: image_step_def Let_def a1 selected_device_def)
  moreover have "shaped (acc1\<lparr>num_images := num_images acc1 + 1\<rparr>)"
    using s1 by (simp add: shaped_def)
  ultimately show ?thesis using n1 cov1 by simp
qed

lemma cov_loader_loop:
  assumes "list_all (well_shaped net) ds" and "shaped acc" and "mean_shape_ok rows"
  shows "\<exists>acc'. for_each (image_step (Some (Cuda, rows)) False net) ds acc = Inr acc'
     \<and> shaped acc' \<and> num_images acc' = num_images acc + length ds
     \<and> (\<forall>i<NUM_CLASSES. \<forall>j<NUM_CLASSES. cov_matrix acc' ! i ! j =
           cov_matrix acc ! i ! j + pooled_scatter net rows ds i j)"
  using assms(1,2)
proof (induction ds arbitrary: acc)
  case Nil
  then show ?case by (simp add: pooled_scatter_def)
next
  case (Cons s ds)
  from Cons.prems have ws: "well_shaped net s" and wds: "list_all (well_shaped net) ds" by simp_all
  from cov_image_step [OF ws Cons.prems(2) assms(3)]
  obtain acc1 where a1: "image_step (Some (Cuda, rows)) False net s acc = Inr acc1"
    and s1: "shaped acc1" and n1: "num_images acc1 = num_images acc + 1"
    and cov1: "\<forall>i<NUM_CLASSES. \<forall>j<NUM_CLASSES. cov_matrix acc1 ! i ! j =
           cov_matrix acc ! i ! j
             + sum_list (map (\<lambda>c. class_scatter net rows s c i j) [0..<NUM_CLASSES])"
    by auto
  from Cons.IH [OF wds s1]
  obtain acc2 where a2: "for_each (image_step (Some (Cuda, rows)) False net) ds acc1 = Inr acc2"
    and s2: "shaped acc2" and n2: "num_images acc2 = num_images acc1 + length ds"
    and cov2: "\<forall>i<NUM_CLASSES. \<forall>j<NUM_CLASSES. cov_matrix acc2 ! i ! j =
           cov_matrix acc1 ! i ! j + pooled_scatter net rows ds i j"
    by auto
  have "for_each (image_step (Some (Cuda, rows)) False net) (s # ds) acc = Inr acc2"
    by (simp add: a1 a2)
  then show ?case using s2 n1 n2 cov1 cov2
    by (simp add: pooled_scatter_def)
qed

text \<open>C7: when every network output has the size of its label map, the mean array is
  \<open>19 \<times> 19\<close>, the flag \<^verbatim>\<open>--cpu\<close> is not set and the loader is not empty, entry
  \<open>(i, j)\<close> of the saved covariance is the sum, over all images and all classes together, of
  the centered products at the pixels of each class, divided by the number of images times
  \<open>512 \<times> 1024\<close>: one matrix for all classes, and no per-class count in the divisor.\<close>

theorem pooled_covariance_normalisation:
  assumes "list_all (well_shaped net) ds" and "mean_shape_ok rows" and "ds \<noteq> []"
    and "i < NUM_CLASSES" and "j < NUM_CLASSES"
  shows "saved_cov_entry (run_pass (Some (Cuda, rows)) False net ds) i j =
     Some (pooled_scatter net rows ds i j / (real (length ds) * 512 * 1024))"
proof -
  from cov_loader_loop [OF assms(1) shaped_initial assms(2)]
  obtain acc where a: "for_each (image_step (Some (Cuda, rows)) False net) ds initial_accumulators = Inr acc"
    and sh: "shaped acc" and n: "num_images acc = num_images initial_accumulators + length ds"
    and cov: "\<forall>i<NUM_CLASSES. \<forall>j<NUM_CLASSES. cov_matrix acc ! i ! j =
           cov_matrix initial_accumulators ! i ! j + pooled_scatter net rows ds i j"
    by auto
  have n': "num_images acc = length ds"
    using n by (simp add: initial_accumulators_def)
  have c0: "cov_matrix acc ! i ! j = pooled_scatter net rows ds i j"
    using cov assms(4,5) by (simp add: initial_accumulators_def)
  have lens: "i < length (cov_matrix acc)" "j < length (cov_matrix acc ! i)"
    using sh assms(4,5) by (simp_all add: shaped_def)
  show ?thesis
    using assms(3) lens by (simp add: run_pass_def a n' saved_cov_entry_def c0)
qed

text \<open>With no image the division is by zero.\<close>

lemma cov_empty_loader: "run_pass (Some pm) cpu_flag net [] = Inr CovFileNaN"
  by (simp add: run_pass_def initial_accumulators_def)

text \<open>Witness for C7: the two-image loader with a mean array of ones.\<close>

theorem pooled_covariance_normalisation_witness:
  "saved_cov_entry (run_pass (Some (Cuda, replicate 19 (replicate 19 1))) False tiny_net tiny_loader) 0 0
     = Some (3 / 524288)"
proof -
  have ws: "list_all (well_shaped tiny_net) tiny_loader"
    by (simp add: tiny_loader_def well_shaped_def tiny_net_def list_all_iff NUM_CLASSES_def)
  have mo: "mean_shape_ok (replicate 19 (replicate 19 1))"
    by (simp add: mean_shape_ok_def NUM_CLASSES_def list_all_iff)
  have ne: "tiny_loader \<noteq> []" by (simp add: tiny_loader_def)
  have ps: "pooled_scatter tiny_net (replicate 19 (replicate 19 1)) tiny_loader 0 0 = 6"
    by (simp add: pooled_scatter_def class_scatter_def tiny_loader_def tiny_net_def NUM_CLASSES_def
        upt_rec)
  have len: "length tiny_loader = 2" by (simp add: tiny_loader_def)
  from pooled_covariance_normalisation [OF ws mo ne, of 0 0] show ?thesis
    by (simp add: ps len NUM_CLASSES_def)
qed

section \<open>The phases of the statistics script and their devices\<close>

text \<open>The artifact tells the phase.\<close>

lemma run_pass_kind:
  "run_pass pm cpu_flag net ds = Inr art \<Longrightarrow> is_mean_file art \<longleftrightarrow> pm = None"
  by (auto simp: run_pass_def is_mean_file_def split: sum.splits option.splits if_splits)





text \<open>Without a CUDA device neither phase completes, whatever the flag: line 96.\<close>

lemma no_cuda_no_run: "\<not> h_cuda_available h \<Longrightarrow> isl (main_stats a h)"
  by (auto simp: main_stats_def Let_def split: option.splits sum.splits)




section \<open>Class weights\<close>








end
